theory Spec2Isabelle
  imports Main "HOL-Library.Word"
begin

section \<open>Values, maps and the isolate\<close>

text \<open>
  A shallow embedding of \<^verbatim>\<open>src/regexp/regexp-utils.cc\<close>. Strings are sequences of
  UTF-16 code units. A handle to a \<^verbatim>\<open>JSReceiver\<close> is its address; maps (hidden classes)
  are compared by identity, so a map is named by a pointer and its contents are looked
  up in the isolate. The payload of a heap number is a double, which this file never
  inspects: it is the type parameter \<open>'d\<close>.
\<close>

type_synonym jsstring = "16 word list"
type_synonym addr = nat
type_synonym map_ptr = nat

datatype 'd object =
    Smi int
  | HeapNumber 'd
  | Undefined
  | Null
  | Boolean bool
  | Str jsstring
  | Symbol nat
  | JSReceiver addr

datatype InstanceType = JS_REGEXP_TYPE | JS_FUNCTION_TYPE | JS_OBJECT_TYPE | JS_PROXY_TYPE

record 'd v8_map =
  instance_type :: InstanceType
  is_callable :: bool
  prototype :: "'d object"

text \<open>
  The mutable state every operation threads through: the heap as far as this file reads
  it (the map of each receiver, the contents of each map, the in-object
  \<^verbatim>\<open>lastIndex\<close> field of each \<^verbatim>\<open>JSRegExp\<close>) and the isolate's roots
  (\<^verbatim>\<open>regexp_function()->initial_map()\<close>, \<^verbatim>\<open>regexp_prototype_map()\<close>,
  \<^verbatim>\<open>regexp_exec_function()\<close>, \<^verbatim>\<open>force_slow_path()\<close>). Whatever else the
  runtime keeps lives in the record's extension. User code run by a collaborator may
  change any of it.
\<close>

record 'd isolate =
  map_of_recv :: "addr \<Rightarrow> map_ptr"
  map_at :: "map_ptr \<Rightarrow> 'd v8_map"
  last_index :: "addr \<Rightarrow> 'd object"
  regexp_function_initial_map :: map_ptr
  regexp_prototype_map :: map_ptr
  regexp_exec_function :: "'d object"
  force_slow_path :: bool

datatype MessageTemplate = kInvalidRegExpExecResult | kIncompatibleMethodReceiver

text \<open>
  A pending exception: a type error this file throws (\<^verbatim>\<open>THROW_NEW_ERROR\<close> with
  \<^verbatim>\<open>NewTypeError\<close>, its template and arguments), or whatever a collaborator threw.
\<close>

datatype 'd exn = TypeError MessageTemplate "'d object list" | Thrown "'d object"

datatype Name = lastIndex_string | exec_string | match_symbol

datatype LanguageMode = kSloppy | kStrict

text \<open>
  The functions of V8 this file calls and does not define, and the build flag it tests.
  A \<^verbatim>\<open>MaybeHandle<Object>\<close> is a sum: \<open>Inl\<close> the pending exception. Each fallible
  collaborator may run user code, so it returns the state it leaves behind.
  \<^verbatim>\<open>NewNumberFromInt64\<close> receives the 64 bits of its \<^verbatim>\<open>int64_t\<close> argument.
\<close>

record ('d, 's) runtime =
  GetProperty :: "addr \<Rightarrow> Name \<Rightarrow> 's \<Rightarrow> ('d exn + 'd object) \<times> 's"
  SetProperty :: "addr \<Rightarrow> Name \<Rightarrow> 'd object \<Rightarrow> LanguageMode \<Rightarrow> 's \<Rightarrow> ('d exn + 'd object) \<times> 's"
  Call :: "'d object \<Rightarrow> 'd object \<Rightarrow> 'd object list \<Rightarrow> 's \<Rightarrow> ('d exn + 'd object) \<times> 's"
  ToLength :: "'d object \<Rightarrow> 's \<Rightarrow> ('d exn + 'd object) \<times> 's"
  BooleanValue :: "'d object \<Rightarrow> bool"
  NewNumberFromInt64 :: "64 word \<Rightarrow> 'd object"
  PositiveNumberToUint64 :: "'d object \<Rightarrow> 64 word"
  V8_ENABLE_FORCE_SLOW_PATH :: bool

definition ASSIGN_RETURN_ON_EXCEPTION ::
  "('s \<Rightarrow> ('e + 'a) \<times> 's) \<Rightarrow> ('a \<Rightarrow> 's \<Rightarrow> ('e + 'b) \<times> 's) \<Rightarrow> 's \<Rightarrow> ('e + 'b) \<times> 's" where
  "ASSIGN_RETURN_ON_EXCEPTION call cont s =
     (case call s of
        (Inl e, s') \<Rightarrow> (Inl e, s')
      | (Inr v, s') \<Rightarrow> cont v s')"

section \<open>Type tests\<close>

fun IsJSReceiver :: "'d object \<Rightarrow> bool" where
  "IsJSReceiver (JSReceiver a) = True"
| "IsJSReceiver _ = False"

fun IsNull :: "'d object \<Rightarrow> bool" where
  "IsNull Null = True"
| "IsNull _ = False"

fun IsUndefined :: "'d object \<Rightarrow> bool" where
  "IsUndefined Undefined = True"
| "IsUndefined _ = False"

fun IsCallable :: "('d, 'z) isolate_scheme \<Rightarrow> 'd object \<Rightarrow> bool" where
  "IsCallable s (JSReceiver a) = is_callable (map_at s (map_of_recv s a))"
| "IsCallable s _ = False"

fun IsJSRegExp :: "('d, 'z) isolate_scheme \<Rightarrow> 'd object \<Rightarrow> bool" where
  "IsJSRegExp s (JSReceiver a) = (instance_type (map_at s (map_of_recv s a)) = JS_REGEXP_TYPE)"
| "IsJSRegExp s _ = False"

section \<open>GenericCaptureGetter\<close>





section \<open>The lastIndex accessors\<close>

definition HasInitialRegExpMap :: "('d, 'z) isolate_scheme \<Rightarrow> addr \<Rightarrow> bool" where
  "HasInitialRegExpMap s recv = (map_of_recv s recv = regexp_function_initial_map s)"

definition SetLastIndex ::
  "('d, ('d, 'z) isolate_scheme) runtime \<Rightarrow> addr \<Rightarrow> 64 word \<Rightarrow>
   ('d, 'z) isolate_scheme \<Rightarrow> ('d exn + 'd object) \<times> ('d, 'z) isolate_scheme" where
  "SetLastIndex rt recv val s =
     (let value_as_object = NewNumberFromInt64 rt val in
      if HasInitialRegExpMap s recv then
        (Inr (JSReceiver recv), s\<lparr>last_index := (last_index s)(recv := value_as_object)\<rparr>)
      else
        SetProperty rt recv lastIndex_string value_as_object kStrict s)"

definition GetLastIndex ::
  "('d, ('d, 'z) isolate_scheme) runtime \<Rightarrow> addr \<Rightarrow>
   ('d, 'z) isolate_scheme \<Rightarrow> ('d exn + 'd object) \<times> ('d, 'z) isolate_scheme" where
  "GetLastIndex rt recv s =
     (if HasInitialRegExpMap s recv then (Inr (last_index s recv), s)
      else GetProperty rt recv lastIndex_string s)"

section \<open>RegExpExec\<close>

definition NewStringFromAsciiChecked :: "string \<Rightarrow> jsstring" where
  "NewStringFromAsciiChecked cs = map (\<lambda>c. of_nat (of_char c)) cs"

text \<open>
  The optional \<^verbatim>\<open>exec\<close> argument is \<open>Undefined\<close> when the caller has not fetched it.
\<close>

definition RegExpExec ::
  "('d, ('d, 'z) isolate_scheme) runtime \<Rightarrow> addr \<Rightarrow> jsstring \<Rightarrow> 'd object \<Rightarrow>
   ('d, 'z) isolate_scheme \<Rightarrow> ('d exn + 'd object) \<times> ('d, 'z) isolate_scheme" where
  "RegExpExec rt regexp string exec =
     ASSIGN_RETURN_ON_EXCEPTION
       (\<lambda>s. if IsUndefined exec then GetProperty rt regexp exec_string s else (Inr exec, s))
       (\<lambda>exec s.
          if IsCallable s exec then
            ASSIGN_RETURN_ON_EXCEPTION
              (Call rt exec (JSReceiver regexp) [Str string])
              (\<lambda>result s.
                 if \<not> IsJSReceiver result \<and> \<not> IsNull result then
                   (Inl (TypeError kInvalidRegExpExecResult []), s)
                 else (Inr result, s))
              s
          else if \<not> IsJSRegExp s (JSReceiver regexp) then
            (Inl (TypeError kIncompatibleMethodReceiver
                    [Str (NewStringFromAsciiChecked ''RegExp.prototype.exec''),
                     JSReceiver regexp]), s)
          else
            (let regexp_exec = regexp_exec_function s in
             Call rt regexp_exec (JSReceiver regexp) [Str string] s))"

section \<open>IsRegExp and IsUnmodifiedRegExp\<close>

definition IsRegExp ::
  "('d, ('d, 'z) isolate_scheme) runtime \<Rightarrow> 'd object \<Rightarrow>
   ('d, 'z) isolate_scheme \<Rightarrow> ('d exn + bool) \<times> ('d, 'z) isolate_scheme" where
  "IsRegExp rt object s =
     (case object of
        JSReceiver receiver \<Rightarrow>
          ASSIGN_RETURN_ON_EXCEPTION
            (GetProperty rt receiver match_symbol)
            (\<lambda>match s.
               if \<not> IsUndefined match then (Inr (BooleanValue rt match), s)
               else (Inr (IsJSRegExp s object), s))
            s
      | _ \<Rightarrow> (Inr False, s))"

definition IsUnmodifiedRegExp ::
  "('d, 's) runtime \<Rightarrow> ('d, 'z) isolate_scheme \<Rightarrow> 'd object \<Rightarrow> bool" where
  "IsUnmodifiedRegExp rt s obj =
     (if V8_ENABLE_FORCE_SLOW_PATH rt \<and> force_slow_path s then False
      else
        (case obj of
           JSReceiver recv \<Rightarrow>
             if map_of_recv s recv \<noteq> regexp_function_initial_map s then False
             else
               (case prototype (map_at s (map_of_recv s recv)) of
                  JSReceiver proto \<Rightarrow>
                    if map_of_recv s proto \<noteq> regexp_prototype_map s then False
                    else
                      (case last_index s recv of
                         Smi n \<Rightarrow> n \<ge> 0
                       | _ \<Rightarrow> False)
                | _ \<Rightarrow> False)
         | _ \<Rightarrow> False))"

section \<open>AdvanceStringIndex and SetAdvancedStringIndex\<close>

definition kMaxSafeInteger :: nat where
  "kMaxSafeInteger = 9007199254740991"

text \<open>
  \<^verbatim>\<open>String::length()\<close> is an \<^verbatim>\<open>int\<close>, converted to \<^verbatim>\<open>uint64_t\<close> with sign
  extension; \<^verbatim>\<open>String::Get\<close> is only reached below the length.
\<close>

definition String_length :: "jsstring \<Rightarrow> 32 word" where
  "String_length s = word_of_nat (length s)"

definition String_Get :: "jsstring \<Rightarrow> 32 word \<Rightarrow> 16 word" where
  "String_Get s i = s ! unat i"

definition AdvanceStringIndex :: "jsstring \<Rightarrow> 64 word \<Rightarrow> bool \<Rightarrow> 64 word" where
  "AdvanceStringIndex string index unicode =
     (let string_length = (scast (String_length string) :: 64 word) in
      if unicode \<and> index < string_length then
        (let first = String_Get string (ucast index) in
         if first \<ge> 0xD800 \<and> first \<le> 0xDBFF \<and> index + 1 < string_length then
           (let second = String_Get string (ucast (index + 1)) in
            if second \<ge> 0xDC00 \<and> second \<le> 0xDFFF then index + 2 else index + 1)
         else index + 1)
      else index + 1)"

definition SetAdvancedStringIndex ::
  "('d, ('d, 'z) isolate_scheme) runtime \<Rightarrow> addr \<Rightarrow> jsstring \<Rightarrow> bool \<Rightarrow>
   ('d, 'z) isolate_scheme \<Rightarrow> ('d exn + 'd object) \<times> ('d, 'z) isolate_scheme" where
  "SetAdvancedStringIndex rt regexp string unicode =
     ASSIGN_RETURN_ON_EXCEPTION
       (GetProperty rt regexp lastIndex_string)
       (\<lambda>last_index_obj.
          ASSIGN_RETURN_ON_EXCEPTION
            (ToLength rt last_index_obj)
            (\<lambda>last_index_obj.
               (let last_index = PositiveNumberToUint64 rt last_index_obj;
                    new_last_index = AdvanceStringIndex string last_index unicode
                in SetLastIndex rt regexp new_last_index)))"

section \<open>Fixtures\<close>

text \<open>
  A small concrete heap and runtime on which the theorems below are instantiated.
  Receiver 1 is a pristine regular expression whose \<^verbatim>\<open>lastIndex\<close> is 4, receiver 2
  is the regular expression prototype, receiver 3 is a callable function, and every
  other address is a plain object.
\<close>

definition fixture_isolate :: "int isolate" where
  "fixture_isolate =
     \<lparr> map_of_recv = (\<lambda>a. if a = 1 then 10 else if a = 2 then 20 else if a = 3 then 30 else 40),
       map_at = (\<lambda>m.
         if m = 10 then \<lparr> instance_type = JS_REGEXP_TYPE, is_callable = False, prototype = JSReceiver 2 \<rparr>
         else if m = 20 then \<lparr> instance_type = JS_OBJECT_TYPE, is_callable = False, prototype = Null \<rparr>
         else if m = 30 then \<lparr> instance_type = JS_FUNCTION_TYPE, is_callable = True, prototype = Null \<rparr>
         else \<lparr> instance_type = JS_OBJECT_TYPE, is_callable = False, prototype = Null \<rparr>),
       last_index = (\<lambda>a. Smi 4),
       regexp_function_initial_map = 10,
       regexp_prototype_map = 20,
       regexp_exec_function = JSReceiver 3,
       force_slow_path = False \<rparr>"

definition fixture_runtime :: "(int, int isolate) runtime" where
  "fixture_runtime =
     \<lparr> GetProperty = (\<lambda>recv name s.
         if name = lastIndex_string then (Inr (last_index s recv), s)
         else if name = exec_string then (Inr (JSReceiver 3), s)
         else (Inr Undefined, s)),
       SetProperty = (\<lambda>recv name v mode s. (Inr v, s\<lparr>last_index := (last_index s)(recv := v)\<rparr>)),
       Call = (\<lambda>f this args s. (Inr Null, s)),
       ToLength = (\<lambda>v s. (Inr v, s)),
       BooleanValue = (\<lambda>v. v \<noteq> Undefined \<and> v \<noteq> Null \<and> v \<noteq> Boolean False \<and> v \<noteq> Smi 0 \<and> v \<noteq> Str []),
       NewNumberFromInt64 = (\<lambda>w. Smi (sint w)),
       PositiveNumberToUint64 = (\<lambda>v. case v of Smi n \<Rightarrow> word_of_int n | _ \<Rightarrow> 0),
       V8_ENABLE_FORCE_SLOW_PATH = True \<rparr>"

text \<open>A runtime whose property protocol and calls always throw.\<close>

definition throwing_runtime :: "(int, int isolate) runtime" where
  "throwing_runtime =
     fixture_runtime
       \<lparr> GetProperty := (\<lambda>recv name s. (Inl (Thrown Undefined), s)),
         SetProperty := (\<lambda>recv name v mode s. (Inl (Thrown Undefined), s)),
         Call := (\<lambda>f this args s. (Inl (Thrown Undefined), s)) \<rparr>"

text \<open>The fixture heap after user code has stored \<open>-1\<close> in every \<^verbatim>\<open>lastIndex\<close>.\<close>

definition negative_cursor_isolate :: "int isolate" where
  "negative_cursor_isolate = fixture_isolate \<lparr> last_index := (\<lambda>a. Smi (- 1)) \<rparr>"

text \<open>A runtime in which every call returns the number 3.\<close>

definition exec_returns_three_runtime :: "(int, int isolate) runtime" where
  "exec_returns_three_runtime = fixture_runtime \<lparr> Call := (\<lambda>f this args s. (Inr (Smi 3), s)) \<rparr>"

text \<open>A runtime in which every property reads as 42 and every call throws.\<close>

definition exec_is_42_runtime :: "(int, int isolate) runtime" where
  "exec_is_42_runtime =
     throwing_runtime \<lparr> GetProperty := (\<lambda>recv name s. (Inr (Smi 42), s)) \<rparr>"

text \<open>The surrogate-pair condition of the index advancer, on positions of the string.\<close>

definition is_surrogate_pair_at :: "jsstring \<Rightarrow> nat \<Rightarrow> bool" where
  "is_surrogate_pair_at s i =
     (i < length s \<and> 0xD800 \<le> s ! i \<and> s ! i \<le> 0xDBFF \<and>
      i + 1 < length s \<and> 0xDC00 \<le> s ! (i + 1) \<and> s ! (i + 1) \<le> 0xDFFF)"



text \<open>A build without \<^verbatim>\<open>V8_ENABLE_FORCE_SLOW_PATH\<close>.\<close>

definition release_build_runtime :: "(int, int isolate) runtime" where
  "release_build_runtime = fixture_runtime \<lparr> V8_ENABLE_FORCE_SLOW_PATH := False \<rparr>"

text \<open>The fixture heap with the isolate's force-slow-path flag set.\<close>

definition forced_slow_path_isolate :: "int isolate" where
  "forced_slow_path_isolate = fixture_isolate \<lparr> force_slow_path := True \<rparr>"

text \<open>A subject of ten code units, "abcdefghij".\<close>

definition ten_unit_subject :: jsstring where
  "ten_unit_subject = [0x61, 0x62, 0x63, 0x64, 0x65, 0x66, 0x67, 0x68, 0x69, 0x6A]"

text \<open>A runtime whose property protocol reads every property as 9.\<close>

definition getter_sees_nine_runtime :: "(int, int isolate) runtime" where
  "getter_sees_nine_runtime =
     throwing_runtime \<lparr> GetProperty := (\<lambda>recv name s. (Inr (Smi 9), s)) \<rparr>"

section \<open>The lastIndex accessors: which path is taken\<close>

text \<open>
  Claim C1, as amended. \<^verbatim>\<open>GetLastIndex\<close> and \<^verbatim>\<open>SetLastIndex\<close> read and write the
  internal slot directly exactly when the receiver's map is the initial regular
  expression map (\<^verbatim>\<open>HasInitialRegExpMap\<close>), and otherwise go through the generic
  property get and strict-mode set of \<^verbatim>\<open>lastIndex\<close>. Every receiver that
  \<^verbatim>\<open>IsUnmodifiedRegExp\<close> accepts has that map, so it takes the direct path; the
  converse is not promised.
\<close>

theorem lastIndex_direct_path_iff_initial_map:
  "GetLastIndex rt recv s =
     (if HasInitialRegExpMap s recv then (Inr (last_index s recv), s)
      else GetProperty rt recv lastIndex_string s) \<and>
   SetLastIndex rt recv v s =
     (if HasInitialRegExpMap s recv
      then (Inr (JSReceiver recv), s\<lparr>last_index := (last_index s)(recv := NewNumberFromInt64 rt v)\<rparr>)
      else SetProperty rt recv lastIndex_string (NewNumberFromInt64 rt v) kStrict s) \<and>
   (IsUnmodifiedRegExp rt s (JSReceiver recv) \<longrightarrow> HasInitialRegExpMap s recv)"
  by (simp add: GetLastIndex_def SetLastIndex_def IsUnmodifiedRegExp_def HasInitialRegExpMap_def
           split: if_splits)

theorem lastIndex_direct_path_iff_initial_map_witness:
  "IsUnmodifiedRegExp fixture_runtime fixture_isolate (JSReceiver 1) \<and>
   HasInitialRegExpMap fixture_isolate 1 \<and>
   GetLastIndex throwing_runtime 1 fixture_isolate = (Inr (Smi 4), fixture_isolate) \<and>
   GetLastIndex throwing_runtime 4 fixture_isolate = (Inl (Thrown Undefined), fixture_isolate) \<and>
   fst (SetLastIndex throwing_runtime 1 7 fixture_isolate) = Inr (JSReceiver 1) \<and>
   fst (SetLastIndex throwing_runtime 4 7 fixture_isolate) = Inl (Thrown Undefined)"
  using lastIndex_direct_path_iff_initial_map [of throwing_runtime 1 fixture_isolate 7]
        lastIndex_direct_path_iff_initial_map [of throwing_runtime 4 fixture_isolate 7]
        lastIndex_direct_path_iff_initial_map [of fixture_runtime 1 fixture_isolate 7]
  by (simp add: fixture_isolate_def fixture_runtime_def throwing_runtime_def
        IsUnmodifiedRegExp_def HasInitialRegExpMap_def)

text \<open>
  Claim C1 as stated fails: a regular expression that still has the initial map and
  whose \<^verbatim>\<open>lastIndex\<close> holds \<open>-1\<close> is rejected by \<^verbatim>\<open>IsUnmodifiedRegExp\<close>, yet both
  accessors use the slot and never reach the property protocol, which would throw here.
\<close>

theorem direct_path_taken_for_foreign_matcher:
  "\<not> IsUnmodifiedRegExp throwing_runtime negative_cursor_isolate (JSReceiver 1) \<and>
   GetProperty throwing_runtime 1 lastIndex_string negative_cursor_isolate =
     (Inl (Thrown Undefined), negative_cursor_isolate) \<and>
   GetLastIndex throwing_runtime 1 negative_cursor_isolate =
     (Inr (Smi (- 1)), negative_cursor_isolate) \<and>
   fst (SetLastIndex throwing_runtime 1 7 negative_cursor_isolate) = Inr (JSReceiver 1) \<and>
   last_index (snd (SetLastIndex throwing_runtime 1 7 negative_cursor_isolate)) 1 = Smi 7"
  by (simp add: negative_cursor_isolate_def fixture_isolate_def fixture_runtime_def
        throwing_runtime_def IsUnmodifiedRegExp_def HasInitialRegExpMap_def
        GetLastIndex_def SetLastIndex_def)

section \<open>RegExpExec\<close>

lemma IsUndefined_iff: "IsUndefined v \<longleftrightarrow> v = Undefined"
  by (cases v) simp_all

lemma IsNull_iff: "IsNull v \<longleftrightarrow> v = Null"
  by (cases v) simp_all

lemma RegExpExec_unfold:
  "RegExpExec rt regexp string exec s =
     (case (if exec = Undefined then GetProperty rt regexp exec_string s else (Inr exec, s)) of
        (Inl e, s1) \<Rightarrow> (Inl e, s1)
      | (Inr f, s1) \<Rightarrow>
          if IsCallable s1 f then
            (case Call rt f (JSReceiver regexp) [Str string] s1 of
               (Inl e, s2) \<Rightarrow> (Inl e, s2)
             | (Inr result, s2) \<Rightarrow>
                 (if result = Null \<or> IsJSReceiver result then Inr result
                  else Inl (TypeError kInvalidRegExpExecResult []), s2))
          else if \<not> IsJSRegExp s1 (JSReceiver regexp) then
            (Inl (TypeError kIncompatibleMethodReceiver
                    [Str (NewStringFromAsciiChecked ''RegExp.prototype.exec''),
                     JSReceiver regexp]), s1)
          else Call rt (regexp_exec_function s1) (JSReceiver regexp) [Str string] s1)"
  by (auto simp add: RegExpExec_def ASSIGN_RETURN_ON_EXCEPTION_def IsUndefined_iff IsNull_iff
           split: prod.splits sum.splits)

text \<open>
  Claim C2. When the exec value, supplied or fetched from the \<^verbatim>\<open>exec\<close> property, is
  callable, \<^verbatim>\<open>RegExpExec\<close> calls it with the regular expression as receiver and the
  subject as its only argument. A result that is null or a receiver is returned
  unchanged; any other result is the type error \<^verbatim>\<open>kInvalidRegExpExecResult\<close>; an
  exception of the call is passed on.
\<close>

theorem RegExpExec_callable:
  assumes resolved:
    "(if exec = Undefined then GetProperty rt regexp exec_string s else (Inr exec, s)) = (Inr f, s1)"
    and callable: "IsCallable s1 f"
  shows "RegExpExec rt regexp string exec s =
           (case Call rt f (JSReceiver regexp) [Str string] s1 of
              (Inl e, s2) \<Rightarrow> (Inl e, s2)
            | (Inr result, s2) \<Rightarrow>
                (if result = Null \<or> IsJSReceiver result then Inr result
                 else Inl (TypeError kInvalidRegExpExecResult []), s2))"
  using resolved callable by (simp add: RegExpExec_unfold)

theorem RegExpExec_callable_witness:
  "(if (Undefined :: int object) = Undefined
    then GetProperty exec_returns_three_runtime 1 exec_string fixture_isolate
    else (Inr Undefined, fixture_isolate)) = (Inr (JSReceiver 3), fixture_isolate) \<and>
   IsCallable fixture_isolate (JSReceiver 3 :: int object) \<and>
   RegExpExec exec_returns_three_runtime 1 [0x61] Undefined fixture_isolate =
     (Inl (TypeError kInvalidRegExpExecResult []), fixture_isolate) \<and>
   RegExpExec fixture_runtime 1 [0x61] (JSReceiver 3) fixture_isolate = (Inr Null, fixture_isolate)"
  using RegExpExec_callable [of Undefined exec_returns_three_runtime 1 fixture_isolate
          "JSReceiver 3" fixture_isolate "[0x61]"]
        RegExpExec_callable [of "JSReceiver 3" fixture_runtime 1 fixture_isolate
          "JSReceiver 3" fixture_isolate "[0x61]"]
  by (simp add: exec_returns_three_runtime_def fixture_runtime_def fixture_isolate_def)

text \<open>
  Claim C3. When the resolved exec value is not callable and the receiver is not a
  \<^verbatim>\<open>JSRegExp\<close>, \<^verbatim>\<open>RegExpExec\<close> fails with the type error
  \<^verbatim>\<open>kIncompatibleMethodReceiver\<close> in the state the resolution left, whatever the
  call mechanism would do: nothing is called. When the receiver is a \<^verbatim>\<open>JSRegExp\<close>,
  the result is that of calling the isolate's built-in exec function on the receiver
  with the subject.
\<close>

theorem RegExpExec_not_callable:
  assumes resolved:
    "(if exec = Undefined then GetProperty rt regexp exec_string s else (Inr exec, s)) = (Inr f, s1)"
    and not_callable: "\<not> IsCallable s1 f"
  shows "(\<not> IsJSRegExp s1 (JSReceiver regexp) \<longrightarrow>
            RegExpExec (rt\<lparr>Call := engine\<rparr>) regexp string exec s =
              (Inl (TypeError kIncompatibleMethodReceiver
                      [Str (NewStringFromAsciiChecked ''RegExp.prototype.exec''),
                       JSReceiver regexp]), s1)) \<and>
         (IsJSRegExp s1 (JSReceiver regexp) \<longrightarrow>
            RegExpExec rt regexp string exec s =
              Call rt (regexp_exec_function s1) (JSReceiver regexp) [Str string] s1)"
proof -
  have r: "(if exec = Undefined then GetProperty (rt\<lparr>Call := engine\<rparr>) regexp exec_string s
            else (Inr exec, s)) = (Inr f, s1)"
    using resolved by (simp split: if_splits)
  show ?thesis
    using not_callable by (simp add: RegExpExec_unfold r resolved del: IsJSRegExp.simps)
qed

theorem RegExpExec_not_callable_witness:
  "(if (Undefined :: int object) = Undefined
    then GetProperty exec_is_42_runtime 4 exec_string fixture_isolate
    else (Inr Undefined, fixture_isolate)) = (Inr (Smi 42), fixture_isolate) \<and>
   \<not> IsCallable fixture_isolate (Smi 42 :: int object) \<and>
   \<not> IsJSRegExp fixture_isolate (JSReceiver 4 :: int object) \<and>
   IsJSRegExp fixture_isolate (JSReceiver 1 :: int object) \<and>
   RegExpExec (exec_is_42_runtime\<lparr>Call := Call fixture_runtime\<rparr>) 4 [0x61] Undefined fixture_isolate =
     (Inl (TypeError kIncompatibleMethodReceiver
             [Str (NewStringFromAsciiChecked ''RegExp.prototype.exec''), JSReceiver 4]),
      fixture_isolate) \<and>
   RegExpExec exec_is_42_runtime 1 [0x61] Undefined fixture_isolate =
     (Inl (Thrown Undefined), fixture_isolate)"
  using RegExpExec_not_callable [of Undefined exec_is_42_runtime 4 fixture_isolate
          "Smi 42" fixture_isolate "Call fixture_runtime" "[0x61]"]
        RegExpExec_not_callable [of Undefined exec_is_42_runtime 1 fixture_isolate
          "Smi 42" fixture_isolate "Call fixture_runtime" "[0x61]"]
  by (simp add: exec_is_42_runtime_def throwing_runtime_def fixture_runtime_def fixture_isolate_def)

section \<open>AdvanceStringIndex\<close>

lemma string_length_cast:
  assumes "length s < 2 ^ 31"
  shows "unat (scast (String_length s) :: 64 word) = length s"
proof -
  have s: "sint (word_of_nat (length s) :: 32 word) = int (length s)"
    using int_word_sint [where 'a = 32, of "int (length s)"] assms by simp
  have "(scast (String_length s) :: 64 word) = word_of_nat (length s)"
    unfolding String_length_def scast_eq s by simp
  then have "unat (scast (String_length s) :: 64 word) = unat (word_of_nat (length s) :: 64 word)"
    by simp
  also have "\<dots> = length s"
    using assms by (simp add: unat_of_nat)
  finally show ?thesis .
qed

lemma ucast_index:
  assumes "unat (i :: 64 word) < n" "n < 2 ^ 31"
  shows "unat (ucast i :: 32 word) = unat i"
proof -
  have "unat i < 2 ^ 32" using assms by simp
  then have "take_bit 32 (unat i) = unat i"
    by (simp add: take_bit_nat_eq_self)
  then show ?thesis
    by (simp add: unsigned_ucast_eq)
qed

text \<open>
  Claim C4. For a subject whose length fits the \<^verbatim>\<open>int\<close> that \<^verbatim>\<open>String::length()\<close>
  returns and an index in the safe-integer range, \<^verbatim>\<open>AdvanceStringIndex\<close> without
  the unicode flag is the index plus one, and with the flag it is the index plus two
  exactly when the index and its successor are inside the string and hold a high and a
  low surrogate, and the index plus one otherwise. The sums do not wrap. The function
  has no state to change.
\<close>

theorem AdvanceStringIndex_spec:
  assumes "unat index \<le> kMaxSafeInteger" and "length s < 2 ^ 31"
  shows "unat (AdvanceStringIndex s index False) = unat index + 1 \<and>
         unat (AdvanceStringIndex s index True) =
           (if is_surrogate_pair_at s (unat index) then unat index + 2 else unat index + 1)"
proof -
  have i: "unat index < 2 ^ 53"
    using assms(1) by (simp add: kMaxSafeInteger_def)
  have u1: "unat (index + 1) = unat index + 1"
    using i by (simp add: unat_word_ariths)
  have u2: "unat (index + 2) = unat index + 2"
    using i by (simp add: unat_word_ariths)
  have len: "unat (scast (String_length s) :: 64 word) = length s"
    by (rule string_length_cast [OF assms(2)])
  have lt0: "index < scast (String_length s) \<longleftrightarrow> unat index < length s"
    by (simp add: word_less_nat_alt len)
  have lt1: "index + 1 < scast (String_length s) \<longleftrightarrow> unat index + 1 < length s"
    by (simp add: word_less_nat_alt len u1)
  have g0: "unat index < length s \<Longrightarrow> String_Get s (ucast index) = s ! unat index"
    using assms(2) by (simp add: String_Get_def ucast_index)
  have g1: "unat index + 1 < length s \<Longrightarrow> String_Get s (ucast (index + 1)) = s ! (unat index + 1)"
    using assms(2) u1 by (simp add: String_Get_def ucast_index)
  have f: "unat (AdvanceStringIndex s index False) = unat index + 1"
    by (simp add: AdvanceStringIndex_def u1)
  have t: "unat (AdvanceStringIndex s index True) =
           (if is_surrogate_pair_at s (unat index) then unat index + 2 else unat index + 1)"
    by (auto simp add: AdvanceStringIndex_def Let_def lt0 lt1 g0 g1 u1 u2 is_surrogate_pair_at_def)
  from f t show ?thesis ..
qed

theorem AdvanceStringIndex_spec_witness:
  "unat (0 :: 64 word) \<le> kMaxSafeInteger \<and>
   length [0xD83D, 0xDE00, 0x61 :: 16 word] < 2 ^ 31 \<and>
   unat (AdvanceStringIndex [0xD83D, 0xDE00, 0x61] 0 False) = 1 \<and>
   unat (AdvanceStringIndex [0xD83D, 0xDE00, 0x61] 0 True) = 2"
  using AdvanceStringIndex_spec [of 0 "[0xD83D, 0xDE00, 0x61]"]
  by (simp add: kMaxSafeInteger_def is_surrogate_pair_at_def)

section \<open>GenericCaptureGetter: the result\<close>







section \<open>IsUnmodifiedRegExp and IsRegExp: the result\<close>

text \<open>
  Claim C6, as amended. \<^verbatim>\<open>IsUnmodifiedRegExp\<close> is true exactly when all four checks
  pass: the value is a receiver, its map is the initial regular expression map, the
  prototype of that map is a receiver whose map is the regular expression prototype
  map, and the \<^verbatim>\<open>lastIndex\<close> slot holds a non-negative small integer. In a build
  that defines \<^verbatim>\<open>V8_ENABLE_FORCE_SLOW_PATH\<close> it is moreover false whenever the
  isolate's force-slow-path flag is set; in a build without it the flag is not read.
  The function reads the state and changes nothing.
\<close>

theorem IsUnmodifiedRegExp_spec:
  "IsUnmodifiedRegExp rt s obj \<longleftrightarrow>
     \<not> (V8_ENABLE_FORCE_SLOW_PATH rt \<and> force_slow_path s) \<and>
     (\<exists>recv. obj = JSReceiver recv \<and>
        map_of_recv s recv = regexp_function_initial_map s \<and>
        (\<exists>proto. prototype (map_at s (map_of_recv s recv)) = JSReceiver proto \<and>
           map_of_recv s proto = regexp_prototype_map s) \<and>
        (\<exists>n. last_index s recv = Smi n \<and> n \<ge> 0))"
  by (auto simp add: IsUnmodifiedRegExp_def split: object.splits)

theorem IsUnmodifiedRegExp_spec_witness:
  "IsUnmodifiedRegExp fixture_runtime fixture_isolate (JSReceiver 1) \<and>
   \<not> IsUnmodifiedRegExp fixture_runtime (fixture_isolate\<lparr>force_slow_path := True\<rparr>) (JSReceiver 1) \<and>
   \<not> IsUnmodifiedRegExp fixture_runtime fixture_isolate (Smi 0) \<and>
   \<not> IsUnmodifiedRegExp fixture_runtime fixture_isolate (JSReceiver 4) \<and>
   \<not> IsUnmodifiedRegExp fixture_runtime (fixture_isolate\<lparr>regexp_prototype_map := 21\<rparr>) (JSReceiver 1) \<and>
   \<not> IsUnmodifiedRegExp fixture_runtime negative_cursor_isolate (JSReceiver 1)"
  using IsUnmodifiedRegExp_spec [of fixture_runtime fixture_isolate "JSReceiver 1"]
    IsUnmodifiedRegExp_spec [of fixture_runtime "fixture_isolate\<lparr>force_slow_path := True\<rparr>" "JSReceiver 1"]
    IsUnmodifiedRegExp_spec [of fixture_runtime fixture_isolate "Smi 0"]
    IsUnmodifiedRegExp_spec [of fixture_runtime fixture_isolate "JSReceiver 4"]
    IsUnmodifiedRegExp_spec [of fixture_runtime "fixture_isolate\<lparr>regexp_prototype_map := 21\<rparr>" "JSReceiver 1"]
    IsUnmodifiedRegExp_spec [of fixture_runtime negative_cursor_isolate "JSReceiver 1"]
  by (simp add: fixture_runtime_def fixture_isolate_def negative_cursor_isolate_def)

text \<open>
  Claim C6 as stated, false whenever the flag is on, fails: built without
  \<^verbatim>\<open>V8_ENABLE_FORCE_SLOW_PATH\<close>, the function accepts a pristine regular
  expression while the isolate's flag is set.
\<close>

theorem IsUnmodifiedRegExp_true_with_flag_on:
  "force_slow_path forced_slow_path_isolate \<and>
   \<not> V8_ENABLE_FORCE_SLOW_PATH release_build_runtime \<and>
   IsUnmodifiedRegExp release_build_runtime forced_slow_path_isolate (JSReceiver 1)"
  by (simp add: forced_slow_path_isolate_def release_build_runtime_def fixture_runtime_def
        fixture_isolate_def IsUnmodifiedRegExp_def)

text \<open>
  Claim C7. \<^verbatim>\<open>IsRegExp\<close> is false, without error, on a value that is not a receiver.
  On a receiver it reads the match symbol property and passes on an exception of that
  read; a value other than \<open>Undefined\<close> gives its boolean coercion, and \<open>Undefined\<close>
  gives whether the receiver is a \<^verbatim>\<open>JSRegExp\<close>.
\<close>

theorem IsRegExp_spec:
  "(\<not> IsJSReceiver object \<longrightarrow> IsRegExp rt object s = (Inr False, s)) \<and>
   (object = JSReceiver recv \<longrightarrow>
      IsRegExp rt object s =
        (case GetProperty rt recv match_symbol s of
           (Inl e, s1) \<Rightarrow> (Inl e, s1)
         | (Inr m, s1) \<Rightarrow>
             (Inr (if m \<noteq> Undefined then BooleanValue rt m else IsJSRegExp s1 object), s1)))"
  by (cases object)
     (auto simp add: IsRegExp_def ASSIGN_RETURN_ON_EXCEPTION_def IsUndefined_iff
           split: prod.splits sum.splits)

theorem IsRegExp_spec_witness:
  "\<not> IsJSReceiver (Smi 1 :: int object) \<and>
   IsRegExp throwing_runtime (Smi 1) fixture_isolate = (Inr False, fixture_isolate) \<and>
   IsRegExp throwing_runtime (JSReceiver 1) fixture_isolate = (Inl (Thrown Undefined), fixture_isolate) \<and>
   IsRegExp fixture_runtime (JSReceiver 1) fixture_isolate = (Inr True, fixture_isolate) \<and>
   IsRegExp fixture_runtime (JSReceiver 4) fixture_isolate = (Inr False, fixture_isolate) \<and>
   IsRegExp exec_is_42_runtime (JSReceiver 4) fixture_isolate = (Inr True, fixture_isolate)"
  using IsRegExp_spec [of "Smi 1" throwing_runtime fixture_isolate 0]
    IsRegExp_spec [of "JSReceiver 1" throwing_runtime fixture_isolate 1]
    IsRegExp_spec [of "JSReceiver 1" fixture_runtime fixture_isolate 1]
    IsRegExp_spec [of "JSReceiver 4" fixture_runtime fixture_isolate 4]
    IsRegExp_spec [of "JSReceiver 4" exec_is_42_runtime fixture_isolate 4]
  by (simp add: exec_is_42_runtime_def throwing_runtime_def fixture_runtime_def fixture_isolate_def)

section \<open>SetAdvancedStringIndex: the result\<close>

text \<open>
  Claim C8. \<^verbatim>\<open>SetAdvancedStringIndex\<close> reads \<^verbatim>\<open>lastIndex\<close> with the generic
  property get, whatever the receiver's map, coerces the value with \<^verbatim>\<open>ToLength\<close>,
  passes on an exception of either step, and hands
  \<^verbatim>\<open>AdvanceStringIndex\<close> of the coerced value to \<^verbatim>\<open>SetLastIndex\<close>. When the
  coerced value is 4, the subject has ten units and the unicode flag is off, the value
  written is 5.
\<close>

theorem SetAdvancedStringIndex_spec:
  "SetAdvancedStringIndex rt regexp string unicode s =
     (case GetProperty rt regexp lastIndex_string s of
        (Inl e, s1) \<Rightarrow> (Inl e, s1)
      | (Inr v, s1) \<Rightarrow>
          (case ToLength rt v s1 of
             (Inl e, s2) \<Rightarrow> (Inl e, s2)
           | (Inr n, s2) \<Rightarrow>
               SetLastIndex rt regexp
                 (AdvanceStringIndex string (PositiveNumberToUint64 rt n) unicode) s2)) \<and>
   (GetProperty rt regexp lastIndex_string s = (Inr v, s1) \<and> ToLength rt v s1 = (Inr n, s2) \<and>
    PositiveNumberToUint64 rt n = 4 \<and> length string = 10 \<longrightarrow>
      SetAdvancedStringIndex rt regexp string False s = SetLastIndex rt regexp 5 s2 \<and>
      (HasInitialRegExpMap s2 regexp \<longrightarrow>
         last_index (snd (SetAdvancedStringIndex rt regexp string False s)) regexp =
           NewNumberFromInt64 rt 5))"
proof -
  have a: "SetAdvancedStringIndex rt regexp string unicode s =
     (case GetProperty rt regexp lastIndex_string s of
        (Inl e, s1) \<Rightarrow> (Inl e, s1)
      | (Inr v, s1) \<Rightarrow>
          (case ToLength rt v s1 of
             (Inl e, s2) \<Rightarrow> (Inl e, s2)
           | (Inr n, s2) \<Rightarrow>
               SetLastIndex rt regexp
                 (AdvanceStringIndex string (PositiveNumberToUint64 rt n) unicode) s2))" for unicode
    by (simp add: SetAdvancedStringIndex_def ASSIGN_RETURN_ON_EXCEPTION_def Let_def
             split: prod.splits sum.splits)
  have adv: "AdvanceStringIndex string 4 False = 5"
    by (simp add: AdvanceStringIndex_def)
  have b: "GetProperty rt regexp lastIndex_string s = (Inr v, s1) \<and> ToLength rt v s1 = (Inr n, s2) \<and>
    PositiveNumberToUint64 rt n = 4 \<and> length string = 10 \<longrightarrow>
      SetAdvancedStringIndex rt regexp string False s = SetLastIndex rt regexp 5 s2 \<and>
      (HasInitialRegExpMap s2 regexp \<longrightarrow>
         last_index (snd (SetAdvancedStringIndex rt regexp string False s)) regexp =
           NewNumberFromInt64 rt 5)"
    by (simp add: a adv SetLastIndex_def)
  from a b show ?thesis ..
qed

theorem SetAdvancedStringIndex_spec_witness:
  "GetProperty fixture_runtime 1 lastIndex_string fixture_isolate = (Inr (Smi 4), fixture_isolate) \<and>
   ToLength fixture_runtime (Smi 4) fixture_isolate = (Inr (Smi 4), fixture_isolate) \<and>
   PositiveNumberToUint64 fixture_runtime (Smi 4 :: int object) = 4 \<and>
   length ten_unit_subject = 10 \<and>
   HasInitialRegExpMap fixture_isolate 1 \<and>
   fst (SetAdvancedStringIndex fixture_runtime 1 ten_unit_subject False fixture_isolate) =
     Inr (JSReceiver 1) \<and>
   last_index (snd (SetAdvancedStringIndex fixture_runtime 1 ten_unit_subject False fixture_isolate)) 1 =
     Smi 5 \<and>
   last_index (snd (SetAdvancedStringIndex getter_sees_nine_runtime 1 ten_unit_subject False
                      fixture_isolate)) 1 = Smi 10"
  using SetAdvancedStringIndex_spec [of fixture_runtime 1 ten_unit_subject False fixture_isolate
          "Smi 4" fixture_isolate "Smi 4" fixture_isolate]
        SetAdvancedStringIndex_spec [of getter_sees_nine_runtime 1 ten_unit_subject False fixture_isolate
          "Smi 9" fixture_isolate "Smi 9" fixture_isolate]
  by (simp add: fixture_runtime_def fixture_isolate_def ten_unit_subject_def
        getter_sees_nine_runtime_def throwing_runtime_def
        HasInitialRegExpMap_def SetLastIndex_def AdvanceStringIndex_def)

section \<open>RegExpExec: the optional exec argument\<close>

text \<open>
  Claim C9. An exec argument equal to \<open>Undefined\<close> is the absent one: \<^verbatim>\<open>RegExpExec\<close>
  then reads the receiver's \<^verbatim>\<open>exec\<close> property, passes on an exception of that read,
  and goes on with the value read. With any other exec argument the result does not
  depend on the property protocol: the read is skipped.
\<close>

theorem RegExpExec_undefined_exec_fetches:
  "(GetProperty rt regexp exec_string s = (Inl e, s1) \<longrightarrow>
      RegExpExec rt regexp string Undefined s = (Inl e, s1)) \<and>
   (GetProperty rt regexp exec_string s = (Inr f, s1) \<and> f \<noteq> Undefined \<longrightarrow>
      RegExpExec rt regexp string Undefined s = RegExpExec rt regexp string f s1) \<and>
   (GetProperty rt regexp exec_string s = (Inr Undefined, s1) \<longrightarrow>
      RegExpExec rt regexp string Undefined s =
        (if IsJSRegExp s1 (JSReceiver regexp)
         then Call rt (regexp_exec_function s1) (JSReceiver regexp) [Str string] s1
         else (Inl (TypeError kIncompatibleMethodReceiver
                      [Str (NewStringFromAsciiChecked ''RegExp.prototype.exec''),
                       JSReceiver regexp]), s1))) \<and>
   (exec \<noteq> Undefined \<longrightarrow>
      RegExpExec (rt\<lparr>GetProperty := getter\<rparr>) regexp string exec s =
        RegExpExec rt regexp string exec s)"
  by (simp add: RegExpExec_unfold del: IsJSRegExp.simps)

theorem RegExpExec_undefined_exec_fetches_witness:
  "GetProperty throwing_runtime 1 exec_string fixture_isolate = (Inl (Thrown Undefined), fixture_isolate) \<and>
   RegExpExec throwing_runtime 1 [0x61] Undefined fixture_isolate =
     (Inl (Thrown Undefined), fixture_isolate) \<and>
   GetProperty fixture_runtime 1 exec_string fixture_isolate = (Inr (JSReceiver 3), fixture_isolate) \<and>
   RegExpExec fixture_runtime 1 [0x61] Undefined fixture_isolate =
     RegExpExec fixture_runtime 1 [0x61] (JSReceiver 3) fixture_isolate \<and>
   RegExpExec (fixture_runtime\<lparr>GetProperty := GetProperty throwing_runtime\<rparr>) 1 [0x61]
       (JSReceiver 3) fixture_isolate =
     RegExpExec fixture_runtime 1 [0x61] (JSReceiver 3) fixture_isolate"
  using RegExpExec_undefined_exec_fetches [of throwing_runtime 1 fixture_isolate "Thrown Undefined"
          fixture_isolate "[0x61]" "JSReceiver 3" "JSReceiver 3" "GetProperty throwing_runtime"]
        RegExpExec_undefined_exec_fetches [of fixture_runtime 1 fixture_isolate "Thrown Undefined"
          fixture_isolate "[0x61]" "JSReceiver 3" "JSReceiver 3" "GetProperty throwing_runtime"]
  by (simp add: throwing_runtime_def fixture_runtime_def)

section \<open>SetLastIndex: the direct path\<close>

text \<open>
  Claim C10. For a receiver whose map is the initial regular expression map,
  \<^verbatim>\<open>SetLastIndex\<close> stores the number made from its 64-bit argument in the
  \<^verbatim>\<open>lastIndex\<close> slot and succeeds with the receiver itself; the property setter
  plays no part, so nothing can fail.
\<close>

theorem SetLastIndex_initial_map:
  assumes "HasInitialRegExpMap s recv"
  shows "SetLastIndex rt recv v s =
           (Inr (JSReceiver recv), s\<lparr>last_index := (last_index s)(recv := NewNumberFromInt64 rt v)\<rparr>) \<and>
         last_index (snd (SetLastIndex rt recv v s)) recv = NewNumberFromInt64 rt v \<and>
         SetLastIndex (rt\<lparr>SetProperty := setter\<rparr>) recv v s = SetLastIndex rt recv v s"
  using assms by (simp add: SetLastIndex_def)

theorem SetLastIndex_initial_map_witness:
  "HasInitialRegExpMap fixture_isolate 1 \<and>
   fst (SetLastIndex throwing_runtime 1 5 fixture_isolate) = Inr (JSReceiver 1) \<and>
   last_index (snd (SetLastIndex throwing_runtime 1 5 fixture_isolate)) 1 = Smi 5"
proof -
  have h: "HasInitialRegExpMap fixture_isolate 1"
    by (simp add: HasInitialRegExpMap_def fixture_isolate_def)
  show ?thesis
    using h SetLastIndex_initial_map [OF h, of throwing_runtime 5 "SetProperty throwing_runtime"]
    by (simp add: throwing_runtime_def fixture_runtime_def)
qed

end
